theory Spec2Isabelle
  imports Main "HOL-Library.AList" "HOL-Library.Word"
begin

section \<open>The command-line entry point (cmd/restic/main.go)\<close>

subsection \<open>Go values: errors, formatted output, outcomes of a call\<close>

text \<open>
  A Go \<open>error\<close> is kept as the value that was built (\<open>errors.New\<close>, \<open>fmt.Errorf\<close>,
  \<open>&url.Error{Op, URL, Err}\<close>, \<open>url.EscapeError\<close>), and a call of the \<open>fmt\<close> package as the
  format and the arguments it was given, so no text rendering is modelled.
\<close>

datatype error =
    errors_New string
  | fmt_Errorf string "arg list"
  | url_Error string string error
  | EscapeError string
and arg = S string | E error

datatype printed = Fprint "arg list" | Fprintf string "arg list" | Fprintln "arg list"

text \<open>
  A Go call either returns, ends the process (\<open>os.Exit\<close>) or panics at run time.
\<close>

datatype 'a outcome = Returns 'a | Exits int | Panics string

text \<open>
  What the process can observe and change: its environment variables, the lines the
  terminal will deliver to \<open>terminal.ReadPassword\<close> (each a result: the bytes read or an
  error), what was written to the two output streams, and the storage media behind the
  backends.
\<close>

record 'st world =
  environ :: "(string \<times> string) list"
  terminal :: "(error + string) list"
  stderr :: "printed list"
  stdout :: "printed list"
  media :: 'st

definition bind :: "'a outcome \<times> 'w \<Rightarrow> ('a \<Rightarrow> 'w \<Rightarrow> 'b outcome \<times> 'w) \<Rightarrow> 'b outcome \<times> 'w" where
  "bind m f = (case m of
      (Returns a, w) \<Rightarrow> f a w
    | (Exits n, w) \<Rightarrow> (Exits n, w)
    | (Panics p, w) \<Rightarrow> (Panics p, w))"

definition newline :: char where
  "newline = CHR 0x0A"

definition Getenv :: "'st world \<Rightarrow> string \<Rightarrow> string" where
  \<comment> \<open>\<open>os.Getenv\<close>: the value, or the empty string when the variable is not set\<close>
  "Getenv w key = (case map_of (environ w) key of None \<Rightarrow> '''' | Some v \<Rightarrow> v)"

definition ReadPassword :: "'st world \<Rightarrow> (error + string) \<times> 'st world" where
  \<comment> \<open>\<open>terminal.ReadPassword\<close>: the next line of the terminal; end of input is an error\<close>
  "ReadPassword w = (case terminal w of
      [] \<Rightarrow> (Inl (errors_New ''EOF''), w)
    | r # rest \<Rightarrow> (r, w\<lparr>terminal := rest\<rparr>))"

definition to_stderr :: "printed \<Rightarrow> 'st world \<Rightarrow> 'st world" where
  "to_stderr x w = w\<lparr>stderr := stderr w @ [x]\<rparr>"

definition to_stdout :: "printed \<Rightarrow> 'st world \<Rightarrow> 'st world" where
  "to_stdout x w = w\<lparr>stdout := stdout w @ [x]\<rparr>"

subsection \<open>errx and readPassword\<close>

definition errx :: "int \<Rightarrow> string \<Rightarrow> arg list \<Rightarrow> 'st world \<Rightarrow> 'a outcome \<times> 'st world" where
  "errx code format data w =
     (let format' = (if length format > 0 \<and> format ! (length format - 1) \<noteq> newline
                     then format @ [newline] else format)
      in (Exits code, to_stderr (Fprintf format' data) w))"

definition readPassword :: "string \<Rightarrow> string \<Rightarrow> 'st world \<Rightarrow> string outcome \<times> 'st world" where
  "readPassword env prompt w =
     (if env \<noteq> '''' \<and> Getenv w env \<noteq> '''' then (Returns (Getenv w env), w)
      else
        let w1 = to_stderr (Fprint [S prompt]) w in
        (case ReadPassword w1 of
           (Inl err, w2) \<Rightarrow> errx 2 ''unable to read password: %v'' [E err] w2
         | (Inr pw, w2) \<Rightarrow> (Returns pw, to_stderr (Fprintln []) w2)))"

subsection \<open>net/url: Parse\<close>

text \<open>
  \<open>url.Parse\<close> is Go's standard library, not code of this repository. \<open>open\<close> and \<open>create\<close>
  read four fields of its result, so it is embedded here from the library's source (the
  release current for this program, Go 1.4: \<open>Parse\<close>, \<open>parse\<close> with \<open>viaRequest = false\<close>,
  \<open>getscheme\<close>, \<open>split\<close>, \<open>parseAuthority\<close>, \<open>unescape\<close> in the modes that leave \<open>+\<close> alone).
\<close>

record Userinfo =
  username :: string
  password :: string

record URL =
  Scheme :: string
  Opaque :: string
  User :: "Userinfo option"
  Host :: string
  Path :: string
  RawQuery :: string
  Fragment :: string

definition new_URL :: URL where
  "new_URL = \<lparr>Scheme = '''', Opaque = '''', User = None, Host = '''', Path = '''',
              RawQuery = '''', Fragment = ''''\<rparr>"

definition Username :: "Userinfo \<Rightarrow> string" where
  "Username u = username u"

definition HasPrefix :: "string \<Rightarrow> string \<Rightarrow> bool" where
  "HasPrefix s p = (take (length p) s = p)"

definition in_range :: "char \<Rightarrow> char \<Rightarrow> char \<Rightarrow> bool" where
  "in_range lo hi c = ((of_char lo :: nat) \<le> of_char c \<and> (of_char c :: nat) \<le> of_char hi)"

definition ToLower :: "string \<Rightarrow> string" where
  \<comment> \<open>on the bytes a scheme can hold (ASCII letters, digits, \<open>+ - .\<close>)\<close>
  "ToLower s = map (\<lambda>c. if in_range CHR ''A'' CHR ''Z'' c
                           then char_of (of_char c + (32 :: nat)) else c) s"

definition ishex :: "char \<Rightarrow> bool" where
  "ishex c = (in_range CHR ''0'' CHR ''9'' c \<or> in_range CHR ''a'' CHR ''f'' c
              \<or> in_range CHR ''A'' CHR ''F'' c)"

definition unhex :: "char \<Rightarrow> nat" where
  "unhex c =
     (if in_range CHR ''0'' CHR ''9'' c then of_char c - of_char CHR ''0''
      else if in_range CHR ''a'' CHR ''f'' c then of_char c - of_char CHR ''a'' + 10
      else if in_range CHR ''A'' CHR ''F'' c then of_char c - of_char CHR ''A'' + 10
      else 0)"

fun unescape :: "string \<Rightarrow> error + string" where
  "unescape [] = Inr []"
| "unescape (c # a # b # s) =
     (if c = CHR ''%'' then
        (if ishex a \<and> ishex b then
           (case unescape s of
              Inl e \<Rightarrow> Inl e
            | Inr t \<Rightarrow> Inr (char_of (unhex a * 16 + unhex b) # t))
         else Inl (EscapeError [c, a, b]))
      else (case unescape (a # b # s) of Inl e \<Rightarrow> Inl e | Inr t \<Rightarrow> Inr (c # t)))"
| "unescape (c # s) =
     (if c = CHR ''%'' then Inl (EscapeError (c # s))
      else (case unescape s of Inl e \<Rightarrow> Inl e | Inr t \<Rightarrow> Inr (c # t)))"

definition split :: "string \<Rightarrow> char \<Rightarrow> bool \<Rightarrow> string \<times> string" where
  \<comment> \<open>cut \<open>s\<close> at the first \<open>c\<close>; \<open>cutc\<close> says whether \<open>c\<close> is dropped from the second part\<close>
  "split s c cutc =
     (let a = takeWhile (\<lambda>x. x \<noteq> c) s; b = dropWhile (\<lambda>x. x \<noteq> c) s
      in if b = [] then (s, '''') else if cutc then (a, tl b) else (a, b))"

fun getscheme_from :: "string \<Rightarrow> string \<Rightarrow> string \<Rightarrow> error + string \<times> string" where
  \<comment> \<open>the loop of \<open>getscheme\<close> at index \<open>i\<close>: \<open>pre = rawurl[0:i]\<close>, the third argument is \<open>rawurl[i:]\<close>\<close>
  "getscheme_from rawurl pre [] = Inr ('''', rawurl)"
| "getscheme_from rawurl pre (c # cs) =
     (if in_range CHR ''a'' CHR ''z'' c \<or> in_range CHR ''A'' CHR ''Z'' c
        then getscheme_from rawurl (pre @ [c]) cs
      else if in_range CHR ''0'' CHR ''9'' c \<or> c = CHR ''+'' \<or> c = CHR ''-'' \<or> c = CHR ''.''
        then (if pre = [] then Inr ('''', rawurl) else getscheme_from rawurl (pre @ [c]) cs)
      else if c = CHR '':''
        then (if pre = [] then Inl (errors_New ''missing protocol scheme'') else Inr (pre, cs))
      else Inr ('''', rawurl))"

definition getscheme :: "string \<Rightarrow> error + string \<times> string" where
  "getscheme rawurl = getscheme_from rawurl [] rawurl"

definition parseAuthority :: "string \<Rightarrow> error + Userinfo option \<times> string" where
  "parseAuthority authority =
     (if CHR ''@'' \<notin> set authority then Inr (None, authority)
      else
        let host = rev (takeWhile (\<lambda>x. x \<noteq> CHR ''@'') (rev authority));
            userinfo = rev (tl (dropWhile (\<lambda>x. x \<noteq> CHR ''@'') (rev authority)))
        in if CHR '':'' \<notin> set userinfo then
             (case unescape userinfo of
                Inl e \<Rightarrow> Inl e
              | Inr u \<Rightarrow> Inr (Some \<lparr>username = u, password = ''''\<rparr>, host))
           else
             (case split userinfo CHR '':'' True of (name, pass) \<Rightarrow>
                (case unescape name of
                   Inl e \<Rightarrow> Inl e
                 | Inr u \<Rightarrow>
                     (case unescape pass of
                        Inl e \<Rightarrow> Inl e
                      | Inr p \<Rightarrow> Inr (Some \<lparr>username = u, password = p\<rparr>, host)))))"

definition parse :: "string \<Rightarrow> error + URL" where
  "parse rawurl =
     (if rawurl = ''*'' then Inr (new_URL\<lparr>Path := ''*''\<rparr>)
      else
        (case getscheme rawurl of
           Inl e \<Rightarrow> Inl (url_Error ''parse'' rawurl e)
         | Inr (scheme, rest0) \<Rightarrow>
             (case split rest0 CHR ''?'' True of (rest, query) \<Rightarrow>
                let url = new_URL\<lparr>Scheme := ToLower scheme, RawQuery := query\<rparr> in
                if \<not> HasPrefix rest ''/'' \<and> Scheme url \<noteq> '''' then Inr (url\<lparr>Opaque := rest\<rparr>)
                else if (Scheme url \<noteq> '''' \<or> \<not> HasPrefix rest ''///'') \<and> HasPrefix rest ''//'' then
                  (case split (drop 2 rest) CHR ''/'' False of (authority, rest') \<Rightarrow>
                     (case parseAuthority authority of
                        Inl e \<Rightarrow> Inl (url_Error ''parse'' rawurl e)
                      | Inr (user, host) \<Rightarrow>
                          if CHR ''%'' \<in> set host
                          then Inl (url_Error ''parse'' rawurl
                                      (errors_New ''hexadecimal escape in host''))
                          else
                            (case unescape rest' of
                               Inl e \<Rightarrow> Inl (url_Error ''parse'' rawurl e)
                             | Inr p \<Rightarrow> Inr (url\<lparr>User := user, Host := host, Path := p\<rparr>))))
                else
                  (case unescape rest of
                     Inl e \<Rightarrow> Inl (url_Error ''parse'' rawurl e)
                   | Inr p \<Rightarrow> Inr (url\<lparr>Path := p\<rparr>)))))"

definition url_Parse :: "string \<Rightarrow> error + URL" where
  "url_Parse rawurl =
     (case split rawurl CHR ''#'' True of (u, frag) \<Rightarrow>
        (case parse u of
           Inl e \<Rightarrow> Inl e
         | Inr url \<Rightarrow>
             if frag = '''' then Inr url
             else
               (case unescape frag of
                  Inl e \<Rightarrow> Inl (url_Error ''parse'' rawurl e)
                | Inr f \<Rightarrow> Inr (url\<lparr>Fragment := f\<rparr>))))"

subsection \<open>The packages the entry point calls\<close>

text \<open>
  \<open>local.Open\<close>, \<open>local.Create\<close>, \<open>sftp.Open\<close>, \<open>sftp.Create\<close>, \<open>repository.New\<close>,
  \<open>Repository.Init\<close>, \<open>Repository.SearchKey\<close> and the field \<open>Config.ID\<close> belong to packages
  whose files are not among the sources. The entry point is embedded over any
  implementation of them: each may read and change the whole world (a remote shell
  prompts on the terminal, a backend writes to its medium) and returns a value or an
  error.
\<close>

record ('st, 'be, 'repo) packages =
  local_Open :: "string \<Rightarrow> 'st world \<Rightarrow> (error + 'be) \<times> 'st world"
  local_Create :: "string \<Rightarrow> 'st world \<Rightarrow> (error + 'be) \<times> 'st world"
  sftp_Open :: "string \<Rightarrow> string \<Rightarrow> string list \<Rightarrow> 'st world \<Rightarrow> (error + 'be) \<times> 'st world"
  sftp_Create :: "string \<Rightarrow> string \<Rightarrow> string list \<Rightarrow> 'st world \<Rightarrow> (error + 'be) \<times> 'st world"
  repository_New :: "'be \<Rightarrow> 'repo"
  Init :: "'repo \<Rightarrow> string \<Rightarrow> 'st world \<Rightarrow> (error option \<times> 'repo) \<times> 'st world"
  SearchKey :: "'repo \<Rightarrow> string \<Rightarrow> 'st world \<Rightarrow> (error option \<times> 'repo) \<times> 'st world"
  Config_ID :: "'repo \<Rightarrow> string"

definition returned :: "'a \<times> 'w \<Rightarrow> 'a outcome \<times> 'w" where
  "returned r = (Returns (fst r), snd r)"

subsection \<open>open, create\<close>

definition "open" :: "('st, 'be, 'repo) packages \<Rightarrow> string \<Rightarrow> 'st world
    \<Rightarrow> (error + 'be) outcome \<times> 'st world" where
  "open pk u w =
     (case url_Parse u of
        Inl err \<Rightarrow> (Returns (Inl err), w)
      | Inr url \<Rightarrow>
          if Scheme url = '''' then returned (local_Open pk (Path url) w)
          else
            let args = [Host url];
                args = (if User url \<noteq> None \<and> Username (the (User url)) \<noteq> ''''
                        then (args @ [''-l'']) @ [Username (the (User url))] else args);
                args = (args @ [''-s'']) @ [''sftp'']
            in if length (Path url) < 1
               then (Panics ''runtime error: slice bounds out of range'', w)
               else returned (sftp_Open pk (drop 1 (Path url)) ''ssh'' args w))"

definition create :: "('st, 'be, 'repo) packages \<Rightarrow> string \<Rightarrow> 'st world
    \<Rightarrow> (error + 'be) outcome \<times> 'st world" where
  "create pk u w =
     (case url_Parse u of
        Inl err \<Rightarrow> (Returns (Inl err), w)
      | Inr url \<Rightarrow>
          if Scheme url = '''' then returned (local_Create pk (Path url) w)
          else
            let args = [Host url];
                args = (if User url \<noteq> None \<and> Username (the (User url)) \<noteq> ''''
                        then (args @ [''-l'']) @ [Username (the (User url))] else args);
                args = (args @ [''-s'']) @ [''sftp'']
            in if length (Path url) < 1
               then (Panics ''runtime error: slice bounds out of range'', w)
               else returned (sftp_Create pk (drop 1 (Path url)) ''ssh'' args w))"

subsection \<open>CmdInit.Execute, OpenRepo\<close>

record opts =
  Repo :: string

definition Execute :: "('st, 'be, 'repo) packages \<Rightarrow> opts \<Rightarrow> string list \<Rightarrow> 'st world
    \<Rightarrow> error option outcome \<times> 'st world" where
  "Execute pk opts args w =
     (if Repo opts = '''' then
        (Returns (Some (errors_New ''Please specify repository location (-r)'')), w)
      else
        bind (readPassword ''RESTIC_PASSWORD'' ''enter password for new backend: '' w) (\<lambda>pw w.
        bind (readPassword ''RESTIC_PASSWORD'' ''enter password again: '' w) (\<lambda>pw2 w.
        bind (if pw \<noteq> pw2 then errx 1 ''passwords do not match'' [] w else (Returns (), w)) (\<lambda>_ w.
        bind (create pk (Repo opts) w) (\<lambda>r w.
          (case r of
             Inl err \<Rightarrow>
               (Exits 1,
                to_stderr (Fprintf (''creating backend at %s failed: %v'' @ [newline])
                             [S (Repo opts), E err]) w)
           | Inr be \<Rightarrow>
               (case Init pk (repository_New pk be) pw w of
                  ((Some err, s), w) \<Rightarrow>
                    (Exits 1,
                     to_stderr (Fprintf (''creating key in backend at %s failed: %v'' @ [newline])
                                  [S (Repo opts), E err]) w)
                | ((None, s), w) \<Rightarrow>
                    if length (Config_ID pk s) < 10
                    then (Panics ''runtime error: slice bounds out of range'', w)
                    else
                      (Returns None,
                       to_stdout (Fprintln [S ''Losing your password means that your data is irrecoverably lost.''])
                         (to_stdout (Fprintln [S ''Please note that knowledge of your password is required to access the repository.''])
                            (to_stdout (Fprintf (''created restic backend %v at %s'' @ [newline])
                                          [S (take 10 (Config_ID pk s)), S (Repo opts)]) w))))))))))"

definition OpenRepo :: "('st, 'be, 'repo) packages \<Rightarrow> opts \<Rightarrow> 'st world
    \<Rightarrow> (error + 'repo) outcome \<times> 'st world" where
  "OpenRepo pk opts w =
     (if Repo opts = '''' then
        (Returns (Inl (errors_New ''Please specify repository location (-r)'')), w)
      else
        bind (open pk (Repo opts) w) (\<lambda>r w.
          (case r of
             Inl err \<Rightarrow> (Returns (Inl err), w)
           | Inr be \<Rightarrow>
               bind (readPassword ''RESTIC_PASSWORD'' ''enter password for repository: '' w) (\<lambda>pw w.
                 (case SearchKey pk (repository_New pk be) pw w of
                    ((Some err, s), w) \<Rightarrow>
                      (Returns (Inl (fmt_Errorf ''unable to open repo: %v'' [E err])), w)
                  | ((None, s), w) \<Rightarrow> (Returns (Inr s), w))))))"

subsection \<open>A recording implementation of the packages\<close>

text \<open>
  Every call of a package is appended, with its arguments, to the medium, here the list
  of the calls made; a run that never reaches a backend leaves the list as it was.
\<close>

type_synonym call = "string \<times> string list"

definition logged :: "string \<Rightarrow> string list \<Rightarrow> 'a \<Rightarrow> call list world \<Rightarrow> 'a \<times> call list world" where
  "logged name args r w = (r, w\<lparr>media := media w @ [(name, args)]\<rparr>)"

definition recording :: "(call list, string, string) packages" where
  "recording =
     \<lparr>local_Open = (\<lambda>dir. logged ''local.Open'' [dir] (Inr dir)),
      local_Create = (\<lambda>dir. logged ''local.Create'' [dir] (Inr dir)),
      sftp_Open = (\<lambda>dir prog args. logged ''sftp.Open'' (dir # prog # args) (Inr dir)),
      sftp_Create = (\<lambda>dir prog args. logged ''sftp.Create'' (dir # prog # args) (Inr dir)),
      repository_New = (\<lambda>be. be),
      Init = (\<lambda>s pw. logged ''Init'' [s, pw] (None, s)),
      SearchKey = (\<lambda>s pw. logged ''SearchKey'' [s, pw] (None, s)),
      Config_ID = (\<lambda>s. ''0123456789abcdef'')\<rparr>"

definition quiet :: "call list world" where
  "quiet = \<lparr>environ = [(''RESTIC_PASSWORD'', ''secret'')], terminal = [Inr ''typed''],
            stderr = [], stdout = [], media = []\<rparr>"

section \<open>The backend contract and its two transports\<close>

text \<open>
  The packages \<open>backend\<close>, \<open>backend/local\<close> and \<open>backend/sftp\<close> are not among the sources.
  This section models them from the specification (sections 3, 4.1, 4.2, 4.3 and 7):
  typed, content-addressed blobs, the operations Create, Open, Get, Put, List, Remove
  and Test, a Local transport on a directory tree and a Remote transport that sends each
  operation as one request to a cooperating process, which performs the Local
  operation on its own disk. Media faults, timeouts and the byte format of the remote
  stream are left out.
\<close>

subsection \<open>Blobs, errors, disks\<close>

type_synonym bytes = "8 word list"
type_synonym ident = string

text \<open>Modelled from the spec: the blob types of section 3 (the backend package's type tags).\<close>

datatype blob_type = Data | Key | Config | Index | Lock

text \<open>Modelled from the spec: the error kinds of section 7.\<close>

datatype err =
  AlreadyExists | NotFound | ConnectionFailed | IOError | InvalidPassword | CorruptRepository

text \<open>
  Modelled from the spec: the directory hierarchy of the Local transport (section 4.2).
  Under a root there is one subdirectory per blob type; a file in it is either a stored
  blob, named by its identifier, or the temporary file of a Put in progress.
\<close>

datatype entry = Blob ident | Temp ident

type_synonym file_path = "string \<times> blob_type \<times> entry"

record disk =
  dirs :: "(string \<times> blob_type) list"
  files :: "(file_path \<times> bytes) list"

text \<open>Modelled from the spec: the list of the blob types, one subdirectory each (section 4.2).\<close>

definition all_types :: "blob_type list" where
  "all_types = [Data, Key, Config, Index, Lock]"

text \<open>Modelled from the spec: writing a file and the atomic rename of section 4.2.\<close>

definition write_file :: "file_path \<Rightarrow> bytes \<Rightarrow> disk \<Rightarrow> disk" where
  "write_file p c d = d\<lparr>files := AList.update p c (files d)\<rparr>"

definition rename_file :: "file_path \<Rightarrow> file_path \<Rightarrow> disk \<Rightarrow> disk" where
  "rename_file src dst d =
     (case map_of (files d) src of
        None \<Rightarrow> d
      | Some c \<Rightarrow> d\<lparr>files := AList.update dst c (AList.delete src (files d))\<rparr>)"

subsection \<open>Local transport\<close>

text \<open>
  Modelled from the spec: \<open>local.Create\<close> (section 4.2). It fails with AlreadyExists when
  the root already holds a layout marker (a type subdirectory) and otherwise makes the
  subdirectory of every type.
\<close>

definition local_create :: "string \<Rightarrow> disk \<Rightarrow> (err + unit) \<times> disk" where
  "local_create root d =
     (if list_ex (\<lambda>t. (root, t) \<in> set (dirs d)) all_types then (Inl AlreadyExists, d)
      else (Inr (), d\<lparr>dirs := dirs d @ map (Pair root) all_types\<rparr>))"

text \<open>
  Modelled from the spec: \<open>local.Open\<close> (sections 4.1, 4.2). It fails with NotFound when
  the root has no recognizable repository layout.
\<close>

definition local_open :: "string \<Rightarrow> disk \<Rightarrow> err + unit" where
  "local_open root d =
     (if list_all (\<lambda>t. (root, t) \<in> set (dirs d)) all_types then Inr () else Inl NotFound)"

text \<open>Modelled from the spec: Test of the Local transport, an existence check (section 4.1).\<close>

definition local_test :: "string \<Rightarrow> blob_type \<Rightarrow> ident \<Rightarrow> disk \<Rightarrow> bool" where
  "local_test root t i d = (map_of (files d) (root, t, Blob i) \<noteq> None)"

text \<open>Modelled from the spec: Get of the Local transport, the whole blob or NotFound (section 4.1).\<close>

definition local_get :: "string \<Rightarrow> blob_type \<Rightarrow> ident \<Rightarrow> disk \<Rightarrow> err + bytes" where
  "local_get root t i d =
     (case map_of (files d) (root, t, Blob i) of None \<Rightarrow> Inl NotFound | Some c \<Rightarrow> Inr c)"

text \<open>
  Modelled from the spec: Put of the Local transport (sections 4.1, 4.2). An identifier that
  already exists for the type is a success that changes nothing, and the bytes are not
  compared; otherwise the content is written to a temporary file in the type's directory
  and renamed into place. A missing directory is an IOError.
\<close>

definition local_put :: "string \<Rightarrow> blob_type \<Rightarrow> ident \<Rightarrow> bytes \<Rightarrow> disk \<Rightarrow> (err + unit) \<times> disk" where
  "local_put root t i c d =
     (if local_test root t i d then (Inr (), d)
      else if (root, t) \<notin> set (dirs d) then (Inl IOError, d)
      else (Inr (), rename_file (root, t, Temp i) (root, t, Blob i)
                      (write_file (root, t, Temp i) c d)))"

text \<open>
  Modelled from the spec: List of the Local transport (sections 4.1, 4.2), the entries of
  the type's subdirectory that are stored blobs, in the order of the directory.
\<close>

definition local_list :: "string \<Rightarrow> blob_type \<Rightarrow> disk \<Rightarrow> ident list" where
  "local_list root t d =
     concat (map (\<lambda>(p, c). case p of
                              (r, t', Blob i) \<Rightarrow> if r = root \<and> t' = t then [i] else []
                            | (r, t', Temp i) \<Rightarrow> [])
                 (files d))"

text \<open>Modelled from the spec: Remove of the Local transport, NotFound for an absent identifier.\<close>

definition local_remove :: "string \<Rightarrow> blob_type \<Rightarrow> ident \<Rightarrow> disk \<Rightarrow> (err + unit) \<times> disk" where
  "local_remove root t i d =
     (if local_test root t i d
      then (Inr (), d\<lparr>files := AList.delete (root, t, Blob i) (files d)\<rparr>)
      else (Inl NotFound, d))"

subsection \<open>Remote transport\<close>

text \<open>
  Modelled from the spec: the requests and responses of the Remote transport (section
  4.3), one exchange per backend operation.
\<close>

datatype request =
    CreateReq string
  | OpenReq string
  | GetReq string blob_type ident
  | PutReq string blob_type ident bytes
  | ListReq string blob_type
  | RemoveReq string blob_type ident
  | TestReq string blob_type ident

datatype response = Done | Failed err | Content bytes | Ids "ident list" | Exists bool

text \<open>Modelled from the spec: the response to an operation that returns no payload (section 4.3).\<close>

definition reply :: "(err + unit) \<times> disk \<Rightarrow> response \<times> disk" where
  "reply r = (case r of (Inl e, d) \<Rightarrow> (Failed e, d) | (Inr u, d) \<Rightarrow> (Done, d))"

text \<open>
  Modelled from the spec: the cooperating remote process (section 4.3). It performs the
  Local transport's operation on its own disk and answers with the result.
\<close>

fun serve :: "request \<Rightarrow> disk \<Rightarrow> response \<times> disk" where
  "serve (CreateReq root) d = reply (local_create root d)"
| "serve (OpenReq root) d = reply (local_open root d, d)"
| "serve (GetReq root t i) d =
     (case local_get root t i d of Inl e \<Rightarrow> (Failed e, d) | Inr c \<Rightarrow> (Content c, d))"
| "serve (PutReq root t i c) d = reply (local_put root t i c d)"
| "serve (ListReq root t) d = (Ids (local_list root t d), d)"
| "serve (RemoveReq root t i) d = reply (local_remove root t i d)"
| "serve (TestReq root t i) d = (Exists (local_test root t i d), d)"

text \<open>
  Modelled from the spec: the storage media. The local disk, and for every remote command
  line that reaches a cooperating process (the remote-shell program with host, optional
  user and the fixed server command) the disk of that process.
\<close>

record storage =
  here :: disk
  remotes :: "(string list \<times> disk) list"

text \<open>
  Modelled from the spec: one request/response exchange of a session (section 4.3). A
  command line that reaches no process is ConnectionFailed.
\<close>

definition exchange :: "string list \<Rightarrow> request \<Rightarrow> storage \<Rightarrow> (err + response) \<times> storage" where
  "exchange cmd req st =
     (case map_of (remotes st) cmd of
        None \<Rightarrow> (Inl ConnectionFailed, st)
      | Some d \<Rightarrow>
          (case serve req d of
             (resp, d') \<Rightarrow> (Inr resp, st\<lparr>remotes := AList.update cmd d' (remotes st)\<rparr>)))"

text \<open>
  Modelled from the spec: how the client reads the response to a request that carries no
  payload back. An answer of the wrong shape is an IOError.
\<close>

definition completed :: "(err + response) \<times> storage \<Rightarrow> (err + unit) \<times> storage" where
  "completed x =
     (case x of
        (Inl e, st) \<Rightarrow> (Inl e, st)
      | (Inr Done, st) \<Rightarrow> (Inr (), st)
      | (Inr (Failed e), st) \<Rightarrow> (Inl e, st)
      | (Inr other, st) \<Rightarrow> (Inl IOError, st))"

subsection \<open>The backend contract\<close>

text \<open>
  Modelled from the spec: a location after the location string has been parsed (sections 3
  and 6), a local path or a remote command line with the repository root.
\<close>

datatype location = LocalDir string | RemoteShell "string list" string

text \<open>Modelled from the spec: the backend handle, with the variants Local and Remote (section 9).\<close>

datatype backend = Local string | Remote "string list" string

text \<open>Modelled from the spec: Create of the backend contract (section 4.1).\<close>

fun be_create :: "location \<Rightarrow> storage \<Rightarrow> (err + backend) \<times> storage" where
  "be_create (LocalDir root) st =
     (case local_create root (here st) of
        (Inl e, d) \<Rightarrow> (Inl e, st\<lparr>here := d\<rparr>)
      | (Inr u, d) \<Rightarrow> (Inr (Local root), st\<lparr>here := d\<rparr>))"
| "be_create (RemoteShell cmd root) st =
     (case completed (exchange cmd (CreateReq root) st) of
        (Inl e, st') \<Rightarrow> (Inl e, st')
      | (Inr u, st') \<Rightarrow> (Inr (Remote cmd root), st'))"

text \<open>Modelled from the spec: Open of the backend contract (section 4.1).\<close>

fun be_open :: "location \<Rightarrow> storage \<Rightarrow> (err + backend) \<times> storage" where
  "be_open (LocalDir root) st =
     (case local_open root (here st) of
        Inl e \<Rightarrow> (Inl e, st)
      | Inr u \<Rightarrow> (Inr (Local root), st))"
| "be_open (RemoteShell cmd root) st =
     (case completed (exchange cmd (OpenReq root) st) of
        (Inl e, st') \<Rightarrow> (Inl e, st')
      | (Inr u, st') \<Rightarrow> (Inr (Remote cmd root), st'))"

text \<open>Modelled from the spec: Get of the backend contract (section 4.1).\<close>

fun be_get :: "backend \<Rightarrow> blob_type \<Rightarrow> ident \<Rightarrow> storage \<Rightarrow> (err + bytes) \<times> storage" where
  "be_get (Local root) t i st = (local_get root t i (here st), st)"
| "be_get (Remote cmd root) t i st =
     (case exchange cmd (GetReq root t i) st of
        (Inl e, st') \<Rightarrow> (Inl e, st')
      | (Inr (Content c), st') \<Rightarrow> (Inr c, st')
      | (Inr (Failed e), st') \<Rightarrow> (Inl e, st')
      | (Inr other, st') \<Rightarrow> (Inl IOError, st'))"

text \<open>Modelled from the spec: Put of the backend contract (section 4.1).\<close>

fun be_put :: "backend \<Rightarrow> blob_type \<Rightarrow> ident \<Rightarrow> bytes \<Rightarrow> storage \<Rightarrow> (err + unit) \<times> storage" where
  "be_put (Local root) t i c st =
     (case local_put root t i c (here st) of (r, d) \<Rightarrow> (r, st\<lparr>here := d\<rparr>))"
| "be_put (Remote cmd root) t i c st = completed (exchange cmd (PutReq root t i c) st)"

text \<open>Modelled from the spec: List of the backend contract (section 4.1).\<close>

fun be_list :: "backend \<Rightarrow> blob_type \<Rightarrow> storage \<Rightarrow> (err + ident list) \<times> storage" where
  "be_list (Local root) t st = (Inr (local_list root t (here st)), st)"
| "be_list (Remote cmd root) t st =
     (case exchange cmd (ListReq root t) st of
        (Inl e, st') \<Rightarrow> (Inl e, st')
      | (Inr (Ids is), st') \<Rightarrow> (Inr is, st')
      | (Inr (Failed e), st') \<Rightarrow> (Inl e, st')
      | (Inr other, st') \<Rightarrow> (Inl IOError, st'))"

text \<open>Modelled from the spec: Remove of the backend contract (section 4.1).\<close>

fun be_remove :: "backend \<Rightarrow> blob_type \<Rightarrow> ident \<Rightarrow> storage \<Rightarrow> (err + unit) \<times> storage" where
  "be_remove (Local root) t i st =
     (case local_remove root t i (here st) of (r, d) \<Rightarrow> (r, st\<lparr>here := d\<rparr>))"
| "be_remove (Remote cmd root) t i st = completed (exchange cmd (RemoveReq root t i) st)"

text \<open>Modelled from the spec: Test of the backend contract (section 4.1).\<close>

fun be_test :: "backend \<Rightarrow> blob_type \<Rightarrow> ident \<Rightarrow> storage \<Rightarrow> (err + bool) \<times> storage" where
  "be_test (Local root) t i st = (Inr (local_test root t i (here st)), st)"
| "be_test (Remote cmd root) t i st =
     (case exchange cmd (TestReq root t i) st of
        (Inl e, st') \<Rightarrow> (Inl e, st')
      | (Inr (Exists b), st') \<Rightarrow> (Inr b, st')
      | (Inr (Failed e), st') \<Rightarrow> (Inl e, st')
      | (Inr other, st') \<Rightarrow> (Inl IOError, st'))"

subsection \<open>Content addressing, and a storage to run the operations on\<close>

text \<open>
  Modelled from the spec: the content-addressing invariant of section 3, every stored blob
  is filed under the identifier derived from its content.
\<close>

definition content_addressed :: "(bytes \<Rightarrow> ident) \<Rightarrow> disk \<Rightarrow> bool" where
  "content_addressed digest d =
     list_all (\<lambda>(p, c). case p of (r, t, Blob i) \<Rightarrow> i = digest c | (r, t, Temp i) \<Rightarrow> True)
       (files d)"

text \<open>
  A stand-in for the identifier derivation when the operations are run on concrete
  blobs: the bytes themselves, read as text.
\<close>

definition byte_names :: "bytes \<Rightarrow> ident" where
  "byte_names c = map (\<lambda>b. char_of (unat b)) c"

definition empty_disk :: disk where
  "empty_disk = \<lparr>dirs = [], files = []\<rparr>"

definition ssh_host :: "string list" where
  "ssh_host = [''ssh'', ''host'', ''-s'', ''sftp'']"

text \<open>
  Two machines with empty disks, after Create of a Local repository at \<open>/srv/repo\<close> and of a
  Remote one at \<open>backup\<close> behind \<open>ssh host -s sftp\<close>.
\<close>

definition two_machines :: storage where
  "two_machines =
     snd (be_create (RemoteShell ssh_host ''backup'')
       (snd (be_create (LocalDir ''/srv/repo'')
          \<lparr>here = empty_disk, remotes = [(ssh_host, empty_disk)]\<rparr>)))"

section \<open>Properties of the entry point\<close>

subsection \<open>What url.Parse returns for a location with a scheme\<close>

lemma unescape_plain:
  assumes "c \<noteq> CHR ''%''"
  shows "unescape (c # s) = (case unescape s of Inl e \<Rightarrow> Inl e | Inr t \<Rightarrow> Inr (c # t))"
proof (cases s)
  case Nil
  then show ?thesis using assms by simp
next
  case (Cons a s1)
  then show ?thesis using assms by (cases s1) simp_all
qed

lemma unescape_rooted:
  assumes "unescape (CHR ''/'' # s) = Inr p"
  shows "\<exists>t. p = CHR ''/'' # t"
  using assms by (auto simp: unescape_plain split: sum.splits)

lemma unescape_rooted_or_empty:
  assumes "unescape s = Inr p" and "s = [] \<or> hd s = CHR ''/''"
  shows "p = [] \<or> hd p = CHR ''/''"
proof (cases s)
  case Nil
  then show ?thesis using assms by simp
next
  case (Cons c cs)
  then show ?thesis using assms unescape_rooted [of cs p] by auto
qed

lemma split_keep_rooted:
  "split s c False = (a, b) \<Longrightarrow> b = [] \<or> hd b = c"
  by (auto simp: split_def Let_def split: if_splits dest: hd_dropWhile)

lemma HasPrefix_slash: "HasPrefix s ''/'' \<longleftrightarrow> (s \<noteq> [] \<and> hd s = CHR ''/'')"
  by (cases s) (auto simp: HasPrefix_def)

lemma parse_path_rooted:
  assumes "parse u = Inr url" and "Scheme url \<noteq> ''''" and "Path url \<noteq> ''''"
  shows "hd (Path url) = CHR ''/''"
  using assms
  by (auto simp: parse_def new_URL_def Let_def HasPrefix_slash
      split: if_splits sum.splits prod.splits
      dest!: split_keep_rooted unescape_rooted_or_empty)

lemma url_Parse_path_rooted:
  assumes "url_Parse u = Inr url" and "Scheme url \<noteq> ''''" and "Path url \<noteq> ''''"
  shows "hd (Path url) = CHR ''/''"
  using assms parse_path_rooted
  by (auto simp: url_Parse_def split: prod.splits sum.splits if_splits)

lemmas run_Parse =
  url_Parse_def parse_def split_def getscheme_def in_range_def ToLower_def HasPrefix_def
  parseAuthority_def new_URL_def

lemma url_Parse_host_only:
  "url_Parse ''sftp://host'' =
     Inr \<lparr>Scheme = ''sftp'', Opaque = '''', User = None, Host = ''host'', Path = '''',
          RawQuery = '''', Fragment = ''''\<rparr>"
  by (simp add: run_Parse)

lemma url_Parse_user_host:
  "url_Parse ''sftp://user@host'' =
     Inr \<lparr>Scheme = ''sftp'', Opaque = '''',
          User = Some \<lparr>username = ''user'', password = ''''\<rparr>, Host = ''host'', Path = '''',
          RawQuery = '''', Fragment = ''''\<rparr>"
  by (simp add: run_Parse)

lemma url_Parse_fragment_path:
  "url_Parse ''/tmp/repo#1'' =
     Inr \<lparr>Scheme = '''', Opaque = '''', User = None, Host = '''', Path = ''/tmp/repo'',
          RawQuery = '''', Fragment = ''1''\<rparr>"
  by (simp add: run_Parse)

subsection \<open>Transport selection\<close>

lemma open_parse_error:
  "url_Parse u = Inl err \<Longrightarrow> open pk u w = (Returns (Inl err), w)"
  by (simp add: open_def)

lemma create_parse_error:
  "url_Parse u = Inl err \<Longrightarrow> create pk u w = (Returns (Inl err), w)"
  by (simp add: create_def)

text \<open>
  What \<open>open\<close> and \<open>create\<close> do with the fields \<open>url.Parse\<close> returns: with an empty scheme
  they call the Local package on the parsed path, which need not be the location that was
  given; with a scheme and a non-empty parsed path, that path begins with \<open>/\<close> and they
  call the Remote package with the rest of it, the program \<open>ssh\<close> and the arguments: the
  parsed host field, \<open>-l\<close> and the user name when the name is not empty, \<open>-s sftp\<close>.
\<close>

lemma open_create_on_parsed_fields:
  assumes "url_Parse u = Inr url"
  shows "(Scheme url = '''' \<longrightarrow>
            open pk u w = returned (local_Open pk (Path url) w)
            \<and> create pk u w = returned (local_Create pk (Path url) w))
         \<and> (Scheme url \<noteq> '''' \<and> Path url \<noteq> '''' \<longrightarrow>
            hd (Path url) = CHR ''/''
            \<and> open pk u w =
                returned (sftp_Open pk (tl (Path url)) ''ssh''
                  (Host url #
                     (case User url of
                        None \<Rightarrow> []
                      | Some ui \<Rightarrow> if Username ui = '''' then [] else [''-l'', Username ui])
                     @ [''-s'', ''sftp'']) w)
            \<and> create pk u w =
                returned (sftp_Create pk (tl (Path url)) ''ssh''
                  (Host url #
                     (case User url of
                        None \<Rightarrow> []
                      | Some ui \<Rightarrow> if Username ui = '''' then [] else [''-l'', Username ui])
                     @ [''-s'', ''sftp'']) w))"
proof (intro conjI impI)
  assume "Scheme url = ''''"
  then show "open pk u w = returned (local_Open pk (Path url) w)"
    and "create pk u w = returned (local_Create pk (Path url) w)"
    using assms by (simp_all add: open_def create_def)
next
  assume remote: "Scheme url \<noteq> '''' \<and> Path url \<noteq> ''''"
  then show "hd (Path url) = CHR ''/''"
    using assms by (simp add: url_Parse_path_rooted)
  from remote obtain c p where path: "Path url = c # p"
    by (cases "Path url") auto
  show "open pk u w =
          returned (sftp_Open pk (tl (Path url)) ''ssh''
            (Host url #
               (case User url of
                  None \<Rightarrow> []
                | Some ui \<Rightarrow> if Username ui = '''' then [] else [''-l'', Username ui])
               @ [''-s'', ''sftp'']) w)"
    using assms remote path by (auto simp: open_def Let_def split: option.splits)
  show "create pk u w =
          returned (sftp_Create pk (tl (Path url)) ''ssh''
            (Host url #
               (case User url of
                  None \<Rightarrow> []
                | Some ui \<Rightarrow> if Username ui = '''' then [] else [''-l'', Username ui])
               @ [''-s'', ''sftp'']) w)"
    using assms remote path by (auto simp: create_def Let_def split: option.splits)
qed

text \<open>
  C6. Every location without a scheme should select the Local transport rooted at that
  path, and every location with a scheme the Remote transport, with the host, the user when
  there is one, and the path less its leading separator. The code misses both at some
  locations. \<open>/tmp/repo#1\<close> is a bare path, and \<open>open\<close> and \<open>create\<close> root the Local transport
  at \<open>/tmp/repo\<close>: the path is run through the URL parser, which cuts it at \<open>#\<close>. At
  \<open>sftp://user@host\<close> the scheme, the user and the host are there and the parsed path is
  empty: no transport is selected, \<open>open\<close> and \<open>create\<close> panic on \<open>url.Path[1:]\<close> before the
  Remote package is called.
\<close>

theorem location_not_honoured:
  "open pk ''/tmp/repo#1'' w = returned (local_Open pk ''/tmp/repo'' w)
   \<and> create pk ''/tmp/repo#1'' w = returned (local_Create pk ''/tmp/repo'' w)
   \<and> open pk ''sftp://user@host'' w = (Panics ''runtime error: slice bounds out of range'', w)
   \<and> create pk ''sftp://user@host'' w = (Panics ''runtime error: slice bounds out of range'', w)"
  by (simp add: open_def create_def url_Parse_fragment_path url_Parse_user_host)

text \<open>
  C8. A location whose parsed scheme is not empty should have a non-empty parsed path, so
  that \<open>url.Path[1:]\<close> is in bounds. \<open>sftp://host\<close> parses to the scheme \<open>sftp\<close>, the host
  \<open>host\<close> and the empty path, and \<open>open\<close> and \<open>create\<close> panic on the slice instead of
  returning a value or an error, whatever the packages and the world are.
\<close>

theorem scheme_with_empty_path_panics:
  "url_Parse ''sftp://host'' =
     Inr \<lparr>Scheme = ''sftp'', Opaque = '''', User = None, Host = ''host'', Path = '''',
          RawQuery = '''', Fragment = ''''\<rparr>
   \<and> open pk ''sftp://host'' w = (Panics ''runtime error: slice bounds out of range'', w)
   \<and> create pk ''sftp://host'' w = (Panics ''runtime error: slice bounds out of range'', w)"
  by (simp add: open_def create_def url_Parse_host_only)

subsection \<open>The empty location\<close>

text \<open>
  C9. When the repository location option is the empty string, \<open>CmdInit.Execute\<close> and
  \<open>OpenRepo\<close> return the error at once: whatever the packages would do, none of them is
  called, and the world (terminal, output streams and storage media) is left as it was.
\<close>

theorem empty_location_returns_error_first:
  assumes "Repo opts = ''''"
  shows "Execute pk opts args w =
           (Returns (Some (errors_New ''Please specify repository location (-r)'')), w)
         \<and> OpenRepo pk opts w =
           (Returns (Inl (errors_New ''Please specify repository location (-r)'')), w)"
  using assms by (simp add: Execute_def OpenRepo_def)

theorem empty_location_returns_error_first_witness:
  "Repo \<lparr>Repo = ''''\<rparr> = ''''
   \<and> Execute recording \<lparr>Repo = ''''\<rparr> [] quiet =
       (Returns (Some (errors_New ''Please specify repository location (-r)'')), quiet)
   \<and> OpenRepo recording \<lparr>Repo = ''''\<rparr> quiet =
       (Returns (Inl (errors_New ''Please specify repository location (-r)'')), quiet)
   \<and> media quiet = []"
  using empty_location_returns_error_first [of "\<lparr>Repo = ''''\<rparr>" recording "[]" quiet]
  by (simp add: quiet_def)

subsection \<open>readPassword\<close>

text \<open>
  C10. \<open>readPassword\<close> returns the value of the named environment variable whenever the
  name is not empty and the variable is set to a non-empty value, and then it neither
  prompts nor reads the terminal (the world is unchanged). In every other case (the name is
  empty, or the variable is unset or empty) it writes the prompt to standard error and
  reads the terminal: the password read is returned, and a failed read ends the process
  with code 2.
\<close>

theorem readPassword_environment_before_prompt:
  "(env \<noteq> '''' \<and> map_of (environ w) env = Some v \<and> v \<noteq> ''''
      \<longrightarrow> readPassword env prompt w = (Returns v, w))
   \<and> (env = '''' \<or> map_of (environ w) env = None \<or> map_of (environ w) env = Some ''''
      \<longrightarrow> readPassword env prompt w =
          (case terminal w of
             [] \<Rightarrow>
               (Exits 2,
                w\<lparr>stderr := stderr w @ [Fprint [S prompt],
                     Fprintf (''unable to read password: %v'' @ [newline])
                       [E (errors_New ''EOF'')]]\<rparr>)
           | Inl err # rest \<Rightarrow>
               (Exits 2,
                w\<lparr>terminal := rest,
                  stderr := stderr w @ [Fprint [S prompt],
                     Fprintf (''unable to read password: %v'' @ [newline]) [E err]]\<rparr>)
           | Inr pw # rest \<Rightarrow>
               (Returns pw,
                w\<lparr>terminal := rest, stderr := stderr w @ [Fprint [S prompt], Fprintln []]\<rparr>)))"
  by (auto simp: readPassword_def Getenv_def ReadPassword_def to_stderr_def errx_def
      newline_def Let_def split: list.splits sum.splits)

theorem readPassword_environment_before_prompt_witness:
  "readPassword ''RESTIC_PASSWORD'' ''enter password for repository: '' quiet = (Returns ''secret'', quiet)
   \<and> readPassword '''' ''enter password for repository: '' quiet =
       (Returns ''typed'',
        quiet\<lparr>terminal := [],
          stderr := [Fprint [S ''enter password for repository: ''], Fprintln []]\<rparr>)
   \<and> readPassword ''RESTIC_REPOSITORY'' ''enter password for repository: '' quiet =
       (Returns ''typed'',
        quiet\<lparr>terminal := [],
          stderr := [Fprint [S ''enter password for repository: ''], Fprintln []]\<rparr>)"
  using readPassword_environment_before_prompt
          [of "''RESTIC_PASSWORD''" quiet "''secret''" "''enter password for repository: ''"]
        readPassword_environment_before_prompt
          [of "''''" quiet "''x''" "''enter password for repository: ''"]
        readPassword_environment_before_prompt
          [of "''RESTIC_REPOSITORY''" quiet "''x''" "''enter password for repository: ''"]
  by (simp add: quiet_def)

section \<open>Properties of the backend contract\<close>

subsection \<open>Files of the Local transport\<close>

lemma map_of_rename:
  "map_of (files d) src = Some c \<Longrightarrow> src \<noteq> dst \<Longrightarrow>
   map_of (files (rename_file src dst d)) = ((map_of (files d))(src := None))(dst \<mapsto> c)"
  by (simp add: rename_file_def update_conv' delete_conv')

lemma map_of_write:
  "map_of (files (write_file p c d)) = (map_of (files d))(p \<mapsto> c)"
  by (simp add: write_file_def update_conv')

lemma map_of_local_put:
  "map_of (files (snd (local_put root t i c d))) (root, t, Blob i) =
     (if local_test root t i d then map_of (files d) (root, t, Blob i)
      else if (root, t) \<in> set (dirs d) then Some c else None)"
  by (auto simp: local_put_def local_test_def map_of_rename map_of_write)

lemma local_test_get: "local_test root t i d \<Longrightarrow> \<exists>c. local_get root t i d = Inr c"
  by (auto simp: local_get_def local_test_def split: option.splits)

lemma local_put_get:
  assumes "local_put root t i c d = (Inr (), d')"
    and "local_test root t i d \<longrightarrow> local_get root t i d = Inr c"
  shows "local_get root t i d' = Inr c"
proof -
  have d': "d' = snd (local_put root t i c d)"
    using assms(1) by simp
  have dir: "\<not> local_test root t i d \<Longrightarrow> (root, t) \<in> set (dirs d)"
    using assms(1) by (auto simp: local_put_def split: if_splits)
  show ?thesis
    using assms(2) dir unfolding d' local_get_def map_of_local_put
    by (auto simp: local_test_def split: option.splits)
qed

lemma local_put_idem:
  "local_put root t i c (snd (local_put root t i c d)) = local_put root t i c d"
proof (cases "local_test root t i d \<or> (root, t) \<notin> set (dirs d)")
  case True
  then show ?thesis by (auto simp: local_put_def)
next
  case False
  let ?d' = "snd (local_put root t i c d)"
  have "local_test root t i ?d'"
    using False unfolding local_test_def [of _ _ _ ?d'] map_of_local_put by simp
  then have "local_put root t i c ?d' = (Inr (), ?d')"
    by (simp add: local_put_def)
  moreover have "local_put root t i c d = (Inr (), ?d')"
    using False by (simp add: local_put_def)
  ultimately show ?thesis by simp
qed

subsection \<open>Listing\<close>

lemma local_list_update_temp:
  "local_list root t (d\<lparr>files := AList.update (r, t', Temp j) c fs\<rparr>)
     = local_list root t (d\<lparr>files := fs\<rparr>)"
  by (induction fs) (auto simp: local_list_def)

lemma local_list_delete_temp:
  "local_list root t (d\<lparr>files := AList.delete (r, t', Temp j) fs\<rparr>)
     = local_list root t (d\<lparr>files := fs\<rparr>)"
  by (induction fs) (auto simp: local_list_def)

lemma local_list_update_new:
  "(root, t, Blob i) \<notin> fst ` set fs \<Longrightarrow>
   local_list root t (d\<lparr>files := AList.update (root, t, Blob i) c fs\<rparr>)
     = local_list root t (d\<lparr>files := fs\<rparr>) @ [i]"
  by (induction fs) (auto simp: local_list_def)

lemma set_local_list:
  "set (local_list root t d) = {i. (root, t, Blob i) \<in> fst ` set (files d)}"
  by (force simp: local_list_def split: entry.splits prod.splits if_splits)

lemma local_list_put:
  "local_list root t (snd (local_put root t i c d)) =
     (if local_test root t i d \<or> (root, t) \<notin> set (dirs d) then local_list root t d
      else local_list root t d @ [i])"
proof (cases "local_test root t i d \<or> (root, t) \<notin> set (dirs d)")
  case True
  then show ?thesis by (auto simp: local_put_def)
next
  case False
  let ?tmp = "(root, t, Temp i)"
  from False have "(root, t, Blob i) \<notin> fst ` set (files d)"
    by (simp add: local_test_def map_of_eq_None_iff)
  then have absent:
    "(root, t, Blob i) \<notin> fst ` set (AList.delete ?tmp (AList.update ?tmp c (files d)))"
    using dom_delete_subset [of ?tmp "AList.update ?tmp c (files d)"]
    by (auto simp: dom_update)
  have "local_put root t i c d =
          (Inr (), d\<lparr>files := AList.update (root, t, Blob i) c
                      (AList.delete ?tmp (AList.update ?tmp c (files d)))\<rparr>)"
    using False by (simp add: local_put_def rename_file_def write_file_def update_conv')
  then show ?thesis
    using False absent
    by (simp add: local_list_update_new local_list_delete_temp local_list_update_temp)
qed

lemma local_put_distinct:
  "distinct (local_list root t d) \<Longrightarrow> distinct (local_list root t (snd (local_put root t i c d)))"
  by (auto simp: local_list_put set_local_list local_test_def map_of_eq_None_iff)

subsection \<open>Content addressing\<close>

lemma content_addressed_get:
  assumes "content_addressed digest d" and "inj digest"
    and "local_get root T (digest C) d = Inr c"
  shows "c = C"
proof -
  from assms(3) have "map_of (files d) (root, T, Blob (digest C)) = Some c"
    by (auto simp: local_get_def split: option.splits)
  then have "((root, T, Blob (digest C)), c) \<in> set (files d)"
    by (rule map_of_SomeD)
  with assms(1) have "digest C = digest c"
    by (auto simp: content_addressed_def list_all_iff)
  with assms(2) show ?thesis by (auto dest: injD)
qed

lemma set_update_subset: "set (AList.update k v al) \<subseteq> insert (k, v) (set al)"
  by (induction al) auto

lemma set_delete_subset: "set (AList.delete k al) \<subseteq> set al"
  by (induction al) auto

lemma content_addressed_put:
  assumes "content_addressed digest d"
  shows "content_addressed digest (snd (local_put root T (digest C) C d))"
proof (cases "local_test root T (digest C) d \<or> (root, T) \<notin> set (dirs d)")
  case True
  then show ?thesis using assms by (auto simp: local_put_def)
next
  case False
  let ?tmp = "(root, T, Temp (digest C))" and ?dst = "(root, T, Blob (digest C))"
  have "files (snd (local_put root T (digest C) C d)) =
          AList.update ?dst C (AList.delete ?tmp (AList.update ?tmp C (files d)))"
    using False by (simp add: local_put_def rename_file_def write_file_def update_conv')
  moreover have "set (AList.update ?dst C (AList.delete ?tmp (AList.update ?tmp C (files d))))
          \<subseteq> insert (?dst, C) (insert (?tmp, C) (set (files d)))"
    using set_update_subset [of ?dst C "AList.delete ?tmp (AList.update ?tmp C (files d))"]
      set_delete_subset [of ?tmp "AList.update ?tmp C (files d)"]
      set_update_subset [of ?tmp C "files d"]
    by blast
  ultimately show ?thesis
    using assms by (auto simp: content_addressed_def list_all_iff)
qed

subsection \<open>The Remote transport does what the Local one does on the remote disk\<close>

lemma remotes_unchanged:
  "map_of (remotes st) cmd = Some d \<Longrightarrow> st\<lparr>remotes := AList.update cmd d (remotes st)\<rparr> = st"
  by (simp add: update_triv)

lemma map_of_remotes_update:
  "map_of (remotes (st\<lparr>remotes := AList.update cmd d (remotes st)\<rparr>)) cmd = Some d"
  by (simp add: update_conv')

lemma be_put_Remote:
  "map_of (remotes st) cmd = Some d \<Longrightarrow>
   be_put (Remote cmd root) t i c st =
     (fst (local_put root t i c d),
      st\<lparr>remotes := AList.update cmd (snd (local_put root t i c d)) (remotes st)\<rparr>)"
  by (cases "local_put root t i c d")
     (auto simp: exchange_def completed_def reply_def split: sum.splits)

lemma be_put_unreached:
  "map_of (remotes st) cmd = None \<Longrightarrow>
   be_put (Remote cmd root) t i c st = (Inl ConnectionFailed, st)"
  by (simp add: exchange_def completed_def)

lemma be_get_Remote:
  "map_of (remotes st) cmd = Some d \<Longrightarrow>
   be_get (Remote cmd root) t i st = (local_get root t i d, st)"
  by (auto simp: exchange_def update_triv split: sum.splits)

lemma be_list_Remote:
  "map_of (remotes st) cmd = Some d \<Longrightarrow>
   be_list (Remote cmd root) t st = (Inr (local_list root t d), st)"
  by (auto simp: exchange_def update_triv split: sum.splits)

lemma be_list_unreached:
  "map_of (remotes st) cmd = None \<Longrightarrow>
   be_list (Remote cmd root) t st = (Inl ConnectionFailed, st)"
  by (simp add: exchange_def)

lemma be_put_idem:
  "be_put be T i C (snd (be_put be T i C st)) = be_put be T i C st"
proof (cases be)
  case (Local root)
  then show ?thesis
    using local_put_idem [of root T i C "here st"]
    by (auto simp: split_beta)
next
  case (Remote cmd root)
  show ?thesis
  proof (cases "map_of (remotes st) cmd")
    case None
    then show ?thesis using Remote by (simp add: be_put_unreached del: be_put.simps)
  next
    case (Some d)
    let ?d' = "snd (local_put root T i C d)"
    let ?st' = "st\<lparr>remotes := AList.update cmd ?d' (remotes st)\<rparr>"
    have 1: "be_put be T i C st = (fst (local_put root T i C d), ?st')"
      using Remote Some by (simp add: be_put_Remote del: be_put.simps)
    have 2: "map_of (remotes ?st') cmd = Some ?d'"
      by (rule map_of_remotes_update)
    have "be_put be T i C ?st' =
            (fst (local_put root T i C ?d'),
             ?st'\<lparr>remotes := AList.update cmd (snd (local_put root T i C ?d')) (remotes ?st')\<rparr>)"
      using Remote 2 by (simp only: be_put_Remote)
    also have "\<dots> = (fst (local_put root T i C d),
                     ?st'\<lparr>remotes := AList.update cmd ?d' (remotes ?st')\<rparr>)"
      by (simp only: local_put_idem)
    also have "\<dots> = (fst (local_put root T i C d), ?st')"
      using remotes_unchanged [OF 2] by simp
    finally show ?thesis using 1 by simp
  qed
qed

lemma be_put_never_AlreadyExists: "fst (be_put be T i C st) \<noteq> Inl AlreadyExists"
proof (cases be)
  case (Local root)
  then show ?thesis by (auto simp: local_put_def split_beta)
next
  case (Remote cmd root)
  then show ?thesis
    by (cases "map_of (remotes st) cmd")
       (auto simp: be_put_unreached be_put_Remote local_put_def simp del: be_put.simps)
qed

lemma local_test_listed: "local_test root t i d \<longleftrightarrow> i \<in> set (local_list root t d)"
  by (simp add: set_local_list local_test_def map_of_eq_None_iff)

lemma set_local_list_put:
  "set (local_list root t (snd (local_put root t i c d))) =
     (if fst (local_put root t i c d) = Inr () then insert i (set (local_list root t d))
      else set (local_list root t d))"
proof (cases "local_test root t i d")
  case True
  then show ?thesis
    using local_test_listed [of root t i d] by (auto simp: local_put_def)
next
  case False
  then show ?thesis
    by (cases "(root, t) \<in> set (dirs d)") (simp_all add: local_list_put, simp_all add: local_put_def)
qed

lemma be_list_after_put:
  assumes "fst (be_list be T st) = Inr is" and "distinct is"
  shows "\<exists>js. fst (be_list be T (snd (be_put be T i C st))) = Inr js \<and> distinct js
              \<and> set js = (if fst (be_put be T i C st) = Inr () then insert i (set is) else set is)"
proof (cases be)
  case (Local root)
  have "is = local_list root T (here st)"
    using assms(1) Local by simp
  moreover have "fst (be_list be T (snd (be_put be T i C st)))
      = Inr (local_list root T (snd (local_put root T i C (here st))))"
    using Local by (simp add: split_beta)
  moreover have "fst (be_put be T i C st) = fst (local_put root T i C (here st))"
    using Local by (simp add: split_beta)
  ultimately show ?thesis
    using assms(2) local_put_distinct [of root T "here st" i C]
      set_local_list_put [of root T i C "here st"]
    by simp
next
  case (Remote cmd root)
  show ?thesis
  proof (cases "map_of (remotes st) cmd")
    case None
    then show ?thesis using Remote assms by (simp add: be_list_unreached del: be_list.simps)
  next
    case (Some d)
    let ?d' = "snd (local_put root T i C d)"
    have "map_of (remotes (snd (be_put be T i C st))) cmd = Some ?d'"
      using Remote Some by (simp add: be_put_Remote update_conv' del: be_put.simps)
    then have "fst (be_list be T (snd (be_put be T i C st))) = Inr (local_list root T ?d')"
      using Remote by (simp add: be_list_Remote del: be_list.simps)
    moreover have "is = local_list root T d"
      using assms(1) Remote Some by (simp add: be_list_Remote del: be_list.simps)
    moreover have "fst (be_put be T i C st) = fst (local_put root T i C d)"
      using Remote Some by (simp add: be_put_Remote del: be_put.simps)
    ultimately show ?thesis
      using assms(2) local_put_distinct [of root T d i C] set_local_list_put [of root T i C d]
      by simp
  qed
qed

lemmas run_backend =
  two_machines_def empty_disk_def ssh_host_def byte_names_def all_types_def
  local_create_def local_put_def local_test_def local_get_def local_list_def
  write_file_def rename_file_def exchange_def completed_def reply_def

subsection \<open>Round trip\<close>

text \<open>
  C4. For every blob content \<open>C\<close> and every blob type \<open>T\<close>, a successful
  \<open>Put(T, id(C), C)\<close> followed by \<open>Get(T, id(C))\<close> returns exactly \<open>C\<close> (and Get changes
  nothing). The backend \<open>be\<close> is any handle, \<open>Local root\<close> or \<open>Remote cmd root\<close>, so the
  statement is the same for both transports. The second hypothesis is the content
  addressing that Put relies on when it skips a write: what is already stored under
  \<open>id(C)\<close> for \<open>T\<close>, if anything, is \<open>C\<close> (see \<open>content_addressed_get\<close>).
\<close>

theorem put_then_get_returns_content:
  assumes put: "be_put be T (digest C) C st = (Inr (), st')"
    and same: "\<forall>c. fst (be_get be T (digest C) st) = Inr c \<longrightarrow> c = C"
  shows "be_get be T (digest C) st' = (Inr C, st')"
proof (cases be)
  case (Local root)
  obtain r d' where lp: "local_put root T (digest C) C (here st) = (r, d')"
    by (cases "local_put root T (digest C) C (here st)")
  with put Local have r: "r = Inr ()" and st': "st' = st\<lparr>here := d'\<rparr>"
    by auto
  have "local_test root T (digest C) (here st)
          \<longrightarrow> local_get root T (digest C) (here st) = Inr C"
    using same Local local_test_get [of root T "digest C" "here st"] by auto
  with lp r have "local_get root T (digest C) d' = Inr C"
    by (simp add: local_put_get)
  then show ?thesis using Local st' by simp
next
  case (Remote cmd root)
  show ?thesis
  proof (cases "map_of (remotes st) cmd")
    case None
    then show ?thesis
      using put Remote by (simp add: be_put_unreached del: be_put.simps)
  next
    case (Some d)
    obtain r d' where lp: "local_put root T (digest C) C d = (r, d')"
      by (cases "local_put root T (digest C) C d")
    with put Remote Some have r: "r = Inr ()"
      and st': "st' = st\<lparr>remotes := AList.update cmd d' (remotes st)\<rparr>"
      by (auto simp: be_put_Remote simp del: be_put.simps)
    have "local_test root T (digest C) d \<longrightarrow> local_get root T (digest C) d = Inr C"
      using same Remote Some local_test_get [of root T "digest C" d]
      by (auto simp: be_get_Remote simp del: be_get.simps)
    with lp r have "local_get root T (digest C) d' = Inr C"
      by (simp add: local_put_get)
    moreover have "map_of (remotes st') cmd = Some d'"
      unfolding st' by (rule map_of_remotes_update)
    ultimately show ?thesis
      using Remote by (simp add: be_get_Remote del: be_get.simps)
  qed
qed

theorem put_then_get_returns_content_witness:
  "be_get (Local ''/srv/repo'') Data (byte_names [1, 2, 3])
      (snd (be_put (Local ''/srv/repo'') Data (byte_names [1, 2, 3]) [1, 2, 3] two_machines))
     = (Inr [1, 2, 3],
        snd (be_put (Local ''/srv/repo'') Data (byte_names [1, 2, 3]) [1, 2, 3] two_machines))
   \<and> be_get (Remote ssh_host ''backup'') Key (byte_names [4, 5])
      (snd (be_put (Remote ssh_host ''backup'') Key (byte_names [4, 5]) [4, 5] two_machines))
     = (Inr [4, 5],
        snd (be_put (Remote ssh_host ''backup'') Key (byte_names [4, 5]) [4, 5] two_machines))"
proof -
  have l1: "be_put (Local ''/srv/repo'') Data (byte_names [1, 2, 3]) [1, 2, 3] two_machines
      = (Inr (), snd (be_put (Local ''/srv/repo'') Data (byte_names [1, 2, 3]) [1, 2, 3]
                        two_machines))"
    by (simp add: run_backend)
  have l2: "\<forall>c. fst (be_get (Local ''/srv/repo'') Data (byte_names [1, 2, 3]) two_machines) = Inr c
      \<longrightarrow> c = [1, 2, 3]"
    by (simp add: run_backend)
  have r1: "be_put (Remote ssh_host ''backup'') Key (byte_names [4, 5]) [4, 5] two_machines
      = (Inr (), snd (be_put (Remote ssh_host ''backup'') Key (byte_names [4, 5]) [4, 5]
                        two_machines))"
    by (simp add: run_backend)
  have r2: "\<forall>c. fst (be_get (Remote ssh_host ''backup'') Key (byte_names [4, 5]) two_machines) = Inr c
      \<longrightarrow> c = [4, 5]"
    by (simp add: run_backend)
  show ?thesis
    using put_then_get_returns_content [where digest = byte_names and C = "[1, 2, 3]", OF l1 l2]
      put_then_get_returns_content [where digest = byte_names and C = "[4, 5]", OF r1 r2]
    by simp
qed

subsection \<open>Idempotence of Put\<close>

text \<open>
  C5. Calling \<open>Put(T, id, C)\<close> twice is the same as calling it once: the second call
  returns what the first returned and leaves the storage as the first left it; Put never
  answers AlreadyExists, and after a first call that succeeded the second is a success
  that changes nothing. When List showed no identifier twice before, it shows none twice
  after the two calls, and the identifiers it shows are the earlier ones and \<open>id\<close>.
\<close>

theorem put_twice_is_put_once:
  "be_put be T i C (snd (be_put be T i C st)) = be_put be T i C st
   \<and> fst (be_put be T i C st) \<noteq> Inl AlreadyExists
   \<and> (fst (be_put be T i C st) = Inr ()
        \<longrightarrow> be_put be T i C (snd (be_put be T i C st)) = (Inr (), snd (be_put be T i C st)))
   \<and> (\<forall>is. fst (be_list be T st) = Inr is \<and> distinct is \<and> fst (be_put be T i C st) = Inr ()
        \<longrightarrow> (\<exists>js. fst (be_list be T (snd (be_put be T i C (snd (be_put be T i C st))))) = Inr js
                  \<and> distinct js \<and> set js = insert i (set is)))"
proof -
  have idem: "be_put be T i C (snd (be_put be T i C st)) = be_put be T i C st"
    by (rule be_put_idem)
  have second: "fst (be_put be T i C st) = Inr ()
      \<Longrightarrow> be_put be T i C (snd (be_put be T i C st)) = (Inr (), snd (be_put be T i C st))"
    unfolding idem by (simp add: prod_eq_iff)
  have listed: "\<exists>js. fst (be_list be T (snd (be_put be T i C (snd (be_put be T i C st))))) = Inr js
                  \<and> distinct js \<and> set js = insert i (set is)"
    if "fst (be_list be T st) = Inr is" "distinct is" "fst (be_put be T i C st) = Inr ()" for "is"
    unfolding idem using be_list_after_put [OF that(1,2), of i C] that(3) by simp
  show ?thesis
    using idem second listed be_put_never_AlreadyExists [of be T i C st] by blast
qed

theorem put_twice_is_put_once_witness:
  "fst (be_put (Local ''/srv/repo'') Data ''a1'' [7] two_machines) = Inr ()
   \<and> be_put (Local ''/srv/repo'') Data ''a1'' [7]
       (snd (be_put (Local ''/srv/repo'') Data ''a1'' [7] two_machines))
     = (Inr (), snd (be_put (Local ''/srv/repo'') Data ''a1'' [7] two_machines))
   \<and> (\<exists>js. fst (be_list (Local ''/srv/repo'') Data
        (snd (be_put (Local ''/srv/repo'') Data ''a1'' [7]
           (snd (be_put (Local ''/srv/repo'') Data ''a1'' [7] two_machines))))) = Inr js
         \<and> distinct js \<and> set js = insert ''a1'' (set []))
   \<and> fst (be_put (Remote ssh_host ''backup'') Lock ''b2'' [8, 9] two_machines) = Inr ()
   \<and> be_put (Remote ssh_host ''backup'') Lock ''b2'' [8, 9]
       (snd (be_put (Remote ssh_host ''backup'') Lock ''b2'' [8, 9] two_machines))
     = (Inr (), snd (be_put (Remote ssh_host ''backup'') Lock ''b2'' [8, 9] two_machines))
   \<and> (\<exists>js. fst (be_list (Remote ssh_host ''backup'') Lock
        (snd (be_put (Remote ssh_host ''backup'') Lock ''b2'' [8, 9]
           (snd (be_put (Remote ssh_host ''backup'') Lock ''b2'' [8, 9] two_machines))))) = Inr js
         \<and> distinct js \<and> set js = insert ''b2'' (set []))"
proof -
  have l: "fst (be_put (Local ''/srv/repo'') Data ''a1'' [7] two_machines) = Inr ()"
    by (simp add: run_backend)
  have r: "fst (be_put (Remote ssh_host ''backup'') Lock ''b2'' [8, 9] two_machines) = Inr ()"
    by (simp add: run_backend)
  have ll: "fst (be_list (Local ''/srv/repo'') Data two_machines) = Inr []"
    by (simp add: run_backend)
  have rl: "fst (be_list (Remote ssh_host ''backup'') Lock two_machines) = Inr []"
    by (simp add: run_backend)
  have d: "distinct ([] :: ident list)"
    by simp
  show ?thesis
    using put_twice_is_put_once [of "Local ''/srv/repo''" Data "''a1''" "[7]" two_machines]
      put_twice_is_put_once [of "Remote ssh_host ''backup''" Lock "''b2''" "[8, 9]" two_machines]
      l r ll rl d
    by blast
qed

end
